theory Spec2Isabelle
  imports Main "HOL-Library.Word"
begin

section \<open>Strings of the host language\<close>

text \<open>
  A JavaScript string is a sequence of UTF-16 code units. \<open>String.prototype.length\<close>,
  \<open>slice\<close> and the regular expressions of the source (none has the \<open>u\<close> flag) count
  code units, whereas \<open>for (const c of s)\<close> walks code points: a high surrogate directly
  followed by a low surrogate is one element of two units, every other unit is an element of
  its own.
\<close>

type_synonym char16 = "16 word"

type_synonym jsstring = "char16 list"

definition js :: "string \<Rightarrow> jsstring" where
  "js s = map of_char s"

abbreviation SQ :: jsstring where "SQ \<equiv> [0x27]"

abbreviation DQ :: jsstring where "DQ \<equiv> [0x22]"

abbreviation BACKSLASH :: jsstring where "BACKSLASH \<equiv> [0x5C]"

definition isHighSurrogate :: "char16 \<Rightarrow> bool" where
  "isHighSurrogate u \<longleftrightarrow> 0xD800 \<le> u \<and> u \<le> 0xDBFF"

definition isLowSurrogate :: "char16 \<Rightarrow> bool" where
  "isLowSurrogate u \<longleftrightarrow> 0xDC00 \<le> u \<and> u \<le> 0xDFFF"

text \<open>The string iterator: \<open>for (const UTF16CodePoint of misformattedJSON)\<close>.\<close>

fun codePoints :: "jsstring \<Rightarrow> jsstring list" where
  "codePoints [] = []"
| "codePoints [u] = [[u]]"
| "codePoints (h # l # rest) =
     (if isHighSurrogate h \<and> isLowSurrogate l then [h, l] # codePoints rest
      else [h] # codePoints (l # rest))"

section \<open>The parser state\<close>

text \<open>
  \<open>JSONType\<close> is the string union \<open>"array" | "field" | "object-value" | "value"\<close>; the
  property \<open>isJSONType\<close> is optional and starts \<open>undefined\<close>, which is \<open>None\<close> here.
\<close>

datatype JSONType = TArray | TField | TObjectValue | TValue

record Guess =
  string :: jsstring
  isString :: bool
  isEscaped :: bool
  isArray :: int
  isObject :: int
  isObjectField :: bool
  isObjectValue :: bool
  isJSONType :: "JSONType option"
  aufoFilled :: int

record StringPosition =
  currentGuess :: Guess
  followingString :: jsstring
  precedingString :: jsstring
  stringIndex :: nat
  characterIndex :: nat

text \<open>
  The caller's hooks. \<open>bruteForce\<close> gets a copy of the guess and answers with a boolean.
  \<open>heuristic\<close> gets the guess by reference: its result here is the guess as the callback
  left it, and whether the value it returned is truthy. The other members of the position
  are strings and numbers, which a callback cannot change, and \<open>guesses\<close> is local to
  \<open>preParse\<close>. These are the hooks that return; the scan with hooks that may throw comes
  after the entry point, and agrees with this one on the hooks that return.
\<close>

type_synonym BruteForce = "StringPosition \<Rightarrow> bool"

type_synonym Heuristic = "StringPosition \<Rightarrow> Guess \<times> bool"

definition initialGuess :: Guess where
  "initialGuess = \<lparr> string = [], isString = False, isEscaped = False, isArray = 0,
     isObject = 0, isObjectField = False, isObjectValue = False, isJSONType = None,
     aufoFilled = 0 \<rparr>"

section \<open>The regular expressions of the default heuristics\<close>

text \<open>
  \<open>\s\<close> of an ECMAScript regular expression: the WhiteSpace and LineTerminator code
  points, all of them single code units.
\<close>

definition isRegExpSpace :: "char16 \<Rightarrow> bool" where
  "isRegExpSpace u \<longleftrightarrow>
     u \<in> {0x09, 0x0A, 0x0B, 0x0C, 0x0D, 0x20, 0xA0, 0x1680, 0x2028, 0x2029, 0x202F,
           0x205F, 0x3000, 0xFEFF} \<or> (0x2000 \<le> u \<and> u \<le> 0x200A)"

text \<open>
  \<open>possibleDelimiters\<close> is spliced between \<open>[\<close> and \<open>]\<close>; the strings the source builds
  are \<open>,\]\<close>, \<open>,}\<close>, \<open>:\<close>, \<open>,}\]\<close> and the empty string, so the class holds the
  characters below (\<open>\]\<close> is an escaped bracket, and the empty class \<open>[]\<close> matches
  nothing).
\<close>

definition possibleDelimiters :: "JSONType option \<Rightarrow> bool \<Rightarrow> jsstring" where
  "possibleDelimiters ty objectField =
     (if ty = Some TArray then js '',]''
      else if ty = Some TObjectValue then js '',}''
      else if ty = Some TField \<or> objectField then js '':''
      else if ty = Some TValue then js '',}]''
      else [])"

text \<open>\<open>new RegExp(String.raw`^\s*[${possibleDelimiters}]`).test(s)\<close>\<close>

definition delimiterFollowing :: "jsstring \<Rightarrow> jsstring \<Rightarrow> bool" where
  "delimiterFollowing delims s =
     (case dropWhile isRegExpSpace s of [] \<Rightarrow> False | c # _ \<Rightarrow> c \<in> set delims)"

text \<open>
  \<open>new RegExp(String.raw`([^']*)'\s*[${possibleDelimiters}]`).exec(s)\<close>, reduced to its
  first capturing group. The expression is not anchored: the matcher tries the start
  offsets of \<open>s\<close> from the left. At one offset \<open>[^']*\<close> takes the longest run without an
  apostrophe (a shorter run is followed by a character that is not the apostrophe the
  pattern asks for next), then come the apostrophe, the white space and one delimiter.
\<close>

definition matchHere :: "jsstring \<Rightarrow> jsstring \<Rightarrow> jsstring option" where
  "matchHere delims s =
     (case dropWhile (\<lambda>u. u \<noteq> 0x27) s of
        [] \<Rightarrow> None
      | _ # after \<Rightarrow>
          if delimiterFollowing delims after then Some (takeWhile (\<lambda>u. u \<noteq> 0x27) s)
          else None)"

fun findValids :: "jsstring \<Rightarrow> jsstring \<Rightarrow> jsstring option" where
  "findValids delims [] = matchHere delims []"
| "findValids delims (u # us) =
     (case matchHere delims (u # us) of
        Some grp \<Rightarrow> Some grp
      | None \<Rightarrow> findValids delims us)"

section \<open>One guess at one character\<close>

text \<open>
  The body of the inner loop of \<open>preParse\<close> for one guess, split as the source splits it.
  Every function returns the guess as the iteration leaves it, and the guesses it pushed on
  \<open>guesses\<close>, in the order of the pushes.

  The source reads \<open>isArray\<close>, \<open>isEscaped\<close>, \<open>isObject\<close>, \<open>isObjectField\<close>,
  \<open>isObjectValue\<close>, \<open>isString\<close> and \<open>isJSONType\<close> from constants destructured out of
  \<open>currentGuess\<close> before any branch runs, and writes through \<open>currentGuess\<close>. In the
  model the argument \<open>g\<close> is that snapshot: every test below is on \<open>g\<close>, as in the source.
\<close>

text \<open>
  The type after a closing brace or bracket. A number is truthy when it is not zero; the
  two conditional chains of the source test the same three conditions in two orders.
\<close>

definition typeAfterBrace :: "int \<Rightarrow> int \<Rightarrow> JSONType option" where
  "typeAfterBrace arr obj =
     (if arr = 0 \<and> obj \<noteq> 0 then Some TObjectValue
      else if obj = 0 \<and> arr \<noteq> 0 then Some TArray
      else if arr \<noteq> 0 \<and> obj \<noteq> 0 then Some TValue
      else None)"

definition typeAfterBracket :: "int \<Rightarrow> int \<Rightarrow> JSONType option" where
  "typeAfterBracket arr obj =
     (if obj = 0 \<and> arr \<noteq> 0 then Some TArray
      else if arr = 0 \<and> obj \<noteq> 0 then Some TObjectValue
      else if arr \<noteq> 0 \<and> obj \<noteq> 0 then Some TValue
      else None)"

text \<open>The branch \<open>character !== "'"\<close>.\<close>

definition otherCharacter :: "jsstring \<Rightarrow> Guess \<Rightarrow> Guess" where
  "otherCharacter character g =
     (let g1 = g\<lparr>string := string g @ character\<rparr> in
      if isString g then
        (if character = BACKSLASH then g1\<lparr>isEscaped := \<not> isEscaped g\<rparr> else g1)
      else if character = js ''{'' then
        g1\<lparr>isObjectField := True, isJSONType := Some TField, isObject := isObject g + 1\<rparr>
      else if character = js '':'' then
        g1\<lparr>isObjectField := False, isJSONType := Some TObjectValue, isObjectValue := True\<rparr>
      else if character = js ''}'' then
        g1\<lparr>isObjectValue := False, isObject := isObject g - 1,
           isJSONType := typeAfterBrace (isArray g) (isObject g)\<rparr>
      else if character = js ''['' then
        g1\<lparr>isArray := isArray g + 1, isJSONType := Some TArray\<rparr>
      else if character = js '']'' then
        g1\<lparr>isArray := isArray g - 1,
           isJSONType := typeAfterBracket (isArray g) (isObject g)\<rparr>
      else if isObjectValue g \<and> isJSONType g = Some TObjectValue \<and> character = js '','' then
        g1\<lparr>isObjectValue := False, isObjectField := True, isJSONType := Some TField\<rparr>
      else g1)"

text \<open>
  The default heuristics, the last two branches of the chain at an apostrophe. They run
  when both hooks are absent or answer with a falsy value; \<open>cur\<close> is \<open>currentGuess\<close> at
  that moment (the heuristic callback may have written to it), \<open>g\<close> the snapshot taken
  before. \<open>inp\<close> is \<open>misformattedJSON\<close> and \<open>si\<close> is \<open>stringIndex\<close>.
\<close>

definition defaultHeuristics :: "bool \<Rightarrow> jsstring \<Rightarrow> nat \<Rightarrow> Guess \<Rightarrow> Guess \<Rightarrow> Guess \<times> Guess list" where
  "defaultHeuristics TRY_HARD inp si g cur =
     (if isString g then
        (if isEscaped g then (cur\<lparr>isEscaped := False, string := string cur @ SQ\<rparr>, [])
         else
           let delims = possibleDelimiters (isJSONType g) (isObjectField g);
               heuristicDelimiterFollowing =
                 (delims \<noteq> [] \<and> delimiterFollowing delims (drop (si + 1) inp));
               regexpCapturingGroup =
                 (case findValids delims (drop si inp) of Some grp \<Rightarrow> grp | None \<Rightarrow> [])
           in
             if regexpCapturingGroup \<noteq> [] then
               (cur\<lparr>string := string cur @ SQ @ regexpCapturingGroup @ DQ,
                    aufoFilled := int (length regexpCapturingGroup) + 1,
                    isString := False\<rparr>,
                [cur\<lparr>isString := False, string := string cur @ DQ\<rparr>] @
                (if TRY_HARD then [cur\<lparr>isString := True, string := string cur @ SQ\<rparr>]
                 else []))
             else if heuristicDelimiterFollowing then
               (cur\<lparr>string := string cur @ DQ, isString := False\<rparr>,
                if TRY_HARD then [cur\<lparr>isString := False, string := string cur @ SQ\<rparr>]
                else [])
             else
               (cur\<lparr>string := string cur @ SQ\<rparr>,
                if TRY_HARD then [cur\<lparr>isString := False, string := string cur @ SQ\<rparr>]
                else []))
      else (cur\<lparr>string := string cur @ DQ, isString := True\<rparr>, []))"

text \<open>
  The branch of an apostrophe. An absent hook is \<open>None\<close>: \<open>bruteForce?.(...)\<close> is then
  \<open>undefined\<close>, which is falsy, and so is \<open>heuristic?.(...)\<close>. \<open>ci\<close> is
  \<open>characterIndex\<close>.
\<close>

definition positionOf :: "jsstring \<Rightarrow> nat \<Rightarrow> nat \<Rightarrow> Guess \<Rightarrow> StringPosition" where
  "positionOf inp si ci g =
     \<lparr> currentGuess = g, followingString = drop (si + 1) inp,
       precedingString = take si inp, stringIndex = si, characterIndex = ci \<rparr>"

definition bruteForceSays :: "BruteForce option \<Rightarrow> StringPosition \<Rightarrow> bool" where
  "bruteForceSays bruteForce pos = (case bruteForce of None \<Rightarrow> False | Some bf \<Rightarrow> bf pos)"

definition singleQuote :: "BruteForce option \<Rightarrow> Heuristic option \<Rightarrow> bool \<Rightarrow> jsstring \<Rightarrow> nat \<Rightarrow> nat \<Rightarrow> Guess \<Rightarrow> Guess \<times> Guess list" where
  "singleQuote bruteForce heuristic TRY_HARD inp si ci g =
     (if bruteForceSays bruteForce (positionOf inp si ci g) then
        (g\<lparr>string := string g @ DQ\<rparr>, [g\<lparr>string := string g @ SQ\<rparr>])
      else
        case heuristic of
          None \<Rightarrow> defaultHeuristics TRY_HARD inp si g g
        | Some h \<Rightarrow>
            (case h (positionOf inp si ci g) of
               (cur, truthy) \<Rightarrow>
                 if truthy then (cur, []) else defaultHeuristics TRY_HARD inp si g cur))"

text \<open>The whole body: the auto-fill check comes first.\<close>

definition guessStep :: "BruteForce option \<Rightarrow> Heuristic option \<Rightarrow> bool \<Rightarrow> jsstring \<Rightarrow> nat \<Rightarrow> nat \<Rightarrow> jsstring \<Rightarrow> Guess \<Rightarrow> Guess \<times> Guess list" where
  "guessStep bruteForce heuristic TRY_HARD inp si ci character g =
     (if aufoFilled g \<noteq> 0 then (g\<lparr>aufoFilled := aufoFilled g - 1\<rparr>, [])
      else if character \<noteq> SQ then (otherCharacter character g, [])
      else singleQuote bruteForce heuristic TRY_HARD inp si ci g)"

section \<open>The two loops\<close>

text \<open>
  \<open>for (let guessIndex = guesses.length - 1; guessIndex >= 0; guessIndex--)\<close>: the
  first argument counts the guesses still to visit, so the guess visited is the one at
  index \<open>n\<close> when the argument is \<open>Suc n\<close>; pushes go to the end of the array.
\<close>

fun guessLoop :: "(Guess \<Rightarrow> Guess \<times> Guess list) \<Rightarrow> nat \<Rightarrow> Guess list \<Rightarrow> Guess list" where
  "guessLoop step 0 guesses = guesses"
| "guessLoop step (Suc n) guesses =
     (case step (guesses ! n) of
        (g', pushed) \<Rightarrow> guessLoop step n (guesses[n := g'] @ pushed))"

text \<open>
  The loop over the code points, with \<open>stringIndex\<close> advanced by the length of the
  character in code units and \<open>characterIndex\<close> by one.
\<close>

fun charLoop :: "BruteForce option \<Rightarrow> Heuristic option \<Rightarrow> bool \<Rightarrow> jsstring \<Rightarrow> jsstring list \<Rightarrow> nat \<Rightarrow> nat \<Rightarrow> Guess list \<Rightarrow> Guess list" where
  "charLoop bruteForce heuristic TRY_HARD inp [] si ci guesses = guesses"
| "charLoop bruteForce heuristic TRY_HARD inp (character # rest) si ci guesses =
     charLoop bruteForce heuristic TRY_HARD inp rest (si + length character) (Suc ci)
       (guessLoop (guessStep bruteForce heuristic TRY_HARD inp si ci character)
          (length guesses) guesses)"

text \<open>
  The guesses when the scan is over, and the guesses after the first \<open>n\<close> characters
  of the scan.
\<close>

definition finalGuesses :: "jsstring \<Rightarrow> BruteForce option \<Rightarrow> Heuristic option \<Rightarrow> bool \<Rightarrow> Guess list" where
  "finalGuesses misformattedJSON bruteForce heuristic TRY_HARD =
     charLoop bruteForce heuristic TRY_HARD misformattedJSON (codePoints misformattedJSON)
       0 0 [initialGuess]"

definition guessesAfter :: "nat \<Rightarrow> jsstring \<Rightarrow> BruteForce option \<Rightarrow> Heuristic option \<Rightarrow> bool \<Rightarrow> Guess list" where
  "guessesAfter n misformattedJSON bruteForce heuristic TRY_HARD =
     charLoop bruteForce heuristic TRY_HARD misformattedJSON
       (take n (codePoints misformattedJSON)) 0 0 [initialGuess]"

section \<open>Hooks and states used as examples\<close>

text \<open>
  \<open>() => true\<close>, the predicate of the source's sixth example; a heuristic that writes
  an escaped quotation mark and answers with a truthy value, the use the source's
  documentation names; a heuristic that leaves the guess alone and answers with a falsy
  value.
\<close>

definition alwaysBruteForce :: BruteForce where
  "alwaysBruteForce pos = True"

definition escapingHeuristic :: Heuristic where
  "escapingHeuristic pos =
     ((currentGuess pos)\<lparr>string := string (currentGuess pos) @ BACKSLASH @ DQ\<rparr>, True)"

definition decliningHeuristic :: Heuristic where
  "decliningHeuristic pos = (currentGuess pos, False)"

text \<open>The guess after an apostrophe and a backslash: inside a string, escape pending.\<close>

definition escapedGuess :: Guess where
  "escapedGuess =
     initialGuess\<lparr>string := DQ @ BACKSLASH, isString := True, isEscaped := True\<rparr>"

section \<open>JSON.parse as a recogniser\<close>

text \<open>
  \<open>preParse\<close> uses \<open>JSON.parse\<close> of the host only to learn whether it throws. The
  recogniser below follows the JSON grammar of ECMA-262 and ECMA-404 on code units: a
  lexer for the tokens, then a pushdown automaton over them.
\<close>

datatype token = LBrace | RBrace | LBracket | RBracket | Colon | Comma
  | StringToken | NumberToken | LiteralToken

definition isJSONWhiteSpace :: "char16 \<Rightarrow> bool" where
  "isJSONWhiteSpace u \<longleftrightarrow> u \<in> {0x09, 0x0A, 0x0D, 0x20}"

definition isDigit :: "char16 \<Rightarrow> bool" where
  "isDigit u \<longleftrightarrow> 0x30 \<le> u \<and> u \<le> 0x39"

definition isHexDigit :: "char16 \<Rightarrow> bool" where
  "isHexDigit u \<longleftrightarrow> isDigit u \<or> (0x41 \<le> u \<and> u \<le> 0x46) \<or> (0x61 \<le> u \<and> u \<le> 0x66)"

text \<open>
  The characters of a string after its opening quotation mark; the result is what follows
  the closing one. A code unit below U+0020 is not allowed, a backslash starts one of the
  escapes \<open>\" \/ \\ \b \f \n \r \t\<close> or \<open>\u\<close> with four hexadecimal digits.
\<close>

fun lexString :: "jsstring \<Rightarrow> jsstring option" where
  "lexString [] = None"
| "lexString (u # us) =
     (if u = 0x22 then Some us
      else if u = 0x5C then
        (case us of
           [] \<Rightarrow> None
         | e # es \<Rightarrow>
             if e \<in> {0x22, 0x2F, 0x5C, 0x62, 0x66, 0x6E, 0x72, 0x74} then lexString es
             else if e = 0x75 \<and> 4 \<le> length es \<and> list_all isHexDigit (take 4 es)
               then lexString (drop 4 es)
             else None)
      else if u < 0x20 then None
      else lexString us)"

text \<open>
  A number: an optional minus, \<open>0\<close> or a digit from 1 to 9 with more digits, an optional
  fraction, an optional exponent.
\<close>

definition lexDigits :: "jsstring \<Rightarrow> jsstring option" where
  "lexDigits us = (case us of [] \<Rightarrow> None
     | d # ds \<Rightarrow> if isDigit d then Some (dropWhile isDigit ds) else None)"

definition lexExponent :: "jsstring \<Rightarrow> jsstring option" where
  "lexExponent us = (case us of [] \<Rightarrow> Some []
     | e # es \<Rightarrow>
         if e = 0x65 \<or> e = 0x45 then
           (case es of [] \<Rightarrow> None
            | s # ds \<Rightarrow> if s = 0x2B \<or> s = 0x2D then lexDigits ds else lexDigits es)
         else Some us)"

definition lexFraction :: "jsstring \<Rightarrow> jsstring option" where
  "lexFraction us = (case us of [] \<Rightarrow> Some []
     | p # ds \<Rightarrow>
         if p = 0x2E then (case lexDigits ds of None \<Rightarrow> None | Some r \<Rightarrow> lexExponent r)
         else lexExponent us)"

definition lexInteger :: "jsstring \<Rightarrow> jsstring option" where
  "lexInteger us = (case us of [] \<Rightarrow> None
     | d # ds \<Rightarrow>
         if d = 0x30 then lexFraction ds
         else if isDigit d then lexFraction (dropWhile isDigit ds)
         else None)"

definition lexNumber :: "jsstring \<Rightarrow> jsstring option" where
  "lexNumber us = (case us of [] \<Rightarrow> None
     | m # ds \<Rightarrow> if m = 0x2D then lexInteger ds else lexInteger us)"

definition lexLiteral :: "jsstring \<Rightarrow> jsstring option" where
  "lexLiteral us =
     (if take 4 us = js ''true'' then Some (drop 4 us)
      else if take 5 us = js ''false'' then Some (drop 5 us)
      else if take 4 us = js ''null'' then Some (drop 4 us)
      else None)"

text \<open>One token from the front of the text, with the rest of the text.\<close>

definition nextToken :: "char16 \<Rightarrow> jsstring \<Rightarrow> (token \<times> jsstring) option" where
  "nextToken u us =
     (if u = 0x7B then Some (LBrace, us)
      else if u = 0x7D then Some (RBrace, us)
      else if u = 0x5B then Some (LBracket, us)
      else if u = 0x5D then Some (RBracket, us)
      else if u = 0x3A then Some (Colon, us)
      else if u = 0x2C then Some (Comma, us)
      else if u = 0x22 then map_option (Pair StringToken) (lexString us)
      else if u = 0x2D \<or> isDigit u then map_option (Pair NumberToken) (lexNumber (u # us))
      else map_option (Pair LiteralToken) (lexLiteral (u # us)))"

lemma lexString_length: "lexString us = Some r \<Longrightarrow> length r \<le> length us"
  by (induction us arbitrary: r rule: lexString.induct)
     (fastforce split: if_splits list.splits)+

lemma lexDigits_length: "lexDigits us = Some r \<Longrightarrow> length r < length us"
  by (auto simp: lexDigits_def less_Suc_eq_le length_dropWhile_le split: list.splits if_splits)

lemma lexExponent_length: "lexExponent us = Some r \<Longrightarrow> length r \<le> length us"
  by (fastforce simp: lexExponent_def split: list.splits if_splits dest: lexDigits_length)

lemma lexFraction_length: "lexFraction us = Some r \<Longrightarrow> length r \<le> length us"
  by (fastforce simp: lexFraction_def split: list.splits if_splits option.splits
        dest: lexDigits_length lexExponent_length)

lemma lexInteger_length: "lexInteger us = Some r \<Longrightarrow> length r < length us"
proof (cases us)
  case Nil
  assume "lexInteger us = Some r"
  with Nil show ?thesis by (simp add: lexInteger_def)
next
  case (Cons d ds)
  assume "lexInteger us = Some r"
  with Cons have "lexFraction ds = Some r \<or> lexFraction (dropWhile isDigit ds) = Some r"
    by (auto simp: lexInteger_def split: if_splits)
  then have "length r \<le> length ds"
    using lexFraction_length [of ds r] lexFraction_length [of "dropWhile isDigit ds" r]
      length_dropWhile_le [of isDigit ds] by auto
  with Cons show ?thesis by simp
qed

lemma lexNumber_length: "lexNumber (u # us) = Some r \<Longrightarrow> length r \<le> length us"
  using lexInteger_length [of us r] lexInteger_length [of "u # us" r]
  by (auto simp: lexNumber_def split: if_splits)

lemma lexLiteral_length: "lexLiteral (u # us) = Some r \<Longrightarrow> length r \<le> length us"
  by (auto simp: lexLiteral_def js_def split: if_splits)

lemma nextToken_length: "nextToken u us = Some (t, r) \<Longrightarrow> length r \<le> length us"
  by (auto simp: nextToken_def split: if_splits
        dest: lexString_length lexNumber_length lexLiteral_length)

text \<open>The tokens of a text; white space may stand between any two of them.\<close>

function tokens :: "jsstring \<Rightarrow> token list option" where
  "tokens [] = Some []"
| "tokens (u # us) =
     (if isJSONWhiteSpace u then tokens us
      else case nextToken u us of
             None \<Rightarrow> None
           | Some (t, rest) \<Rightarrow>
               (case tokens rest of None \<Rightarrow> None | Some ts \<Rightarrow> Some (t # ts)))"
  by pat_completeness auto
termination
  by (relation "measure length") (auto dest: nextToken_length simp: less_Suc_eq_le)

text \<open>
  The automaton: what it expects next, and the stack of the arrays and objects that are
  still open.
\<close>

datatype container = InArray | InObject

datatype expecting = Value | ValueOrClose | KeyOrClose | Key | ColonNext | CommaOrClose
  | EndOfText

definition afterValue :: "container list \<Rightarrow> expecting \<times> container list" where
  "afterValue stack = (if stack = [] then EndOfText else CommaOrClose, stack)"

definition startValue :: "token \<Rightarrow> container list \<Rightarrow> (expecting \<times> container list) option" where
  "startValue t stack =
     (case t of
        LBracket \<Rightarrow> Some (ValueOrClose, InArray # stack)
      | LBrace \<Rightarrow> Some (KeyOrClose, InObject # stack)
      | StringToken \<Rightarrow> Some (afterValue stack)
      | NumberToken \<Rightarrow> Some (afterValue stack)
      | LiteralToken \<Rightarrow> Some (afterValue stack)
      | _ \<Rightarrow> None)"

fun parseStep :: "token \<Rightarrow> expecting \<times> container list \<Rightarrow> (expecting \<times> container list) option" where
  "parseStep t (Value, stack) = startValue t stack"
| "parseStep t (ValueOrClose, stack) =
     (if t = RBracket then Some (afterValue (tl stack)) else startValue t stack)"
| "parseStep t (KeyOrClose, stack) =
     (if t = RBrace then Some (afterValue (tl stack))
      else if t = StringToken then Some (ColonNext, stack) else None)"
| "parseStep t (Key, stack) = (if t = StringToken then Some (ColonNext, stack) else None)"
| "parseStep t (ColonNext, stack) = (if t = Colon then Some (Value, stack) else None)"
| "parseStep t (CommaOrClose, stack) =
     (case stack of
        [] \<Rightarrow> None
      | InArray # below \<Rightarrow>
          if t = Comma then Some (Value, stack)
          else if t = RBracket then Some (afterValue below) else None
      | InObject # below \<Rightarrow>
          if t = Comma then Some (Key, stack)
          else if t = RBrace then Some (afterValue below) else None)"
| "parseStep t (EndOfText, stack) = None"

fun parseTokens :: "token list \<Rightarrow> expecting \<times> container list \<Rightarrow> bool" where
  "parseTokens [] (e, stack) = (e = EndOfText)"
| "parseTokens (t # ts) c =
     (case parseStep t c of None \<Rightarrow> False | Some c' \<Rightarrow> parseTokens ts c')"

text \<open>\<open>JSON.parse(text)\<close> returns, rather than throws.\<close>

definition JSON_parses :: "jsstring \<Rightarrow> bool" where
  "JSON_parses text =
     (case tokens text of None \<Rightarrow> False | Some ts \<Rightarrow> parseTokens ts (Value, []))"

section \<open>The entry point\<close>

text \<open>
  \<open>preParse(misformattedJSON, bruteForce, heuristic, TRY_HARD)\<close>: after the scan every
  guess goes through \<open>JSON.parse\<close> inside \<open>try\<close>, and the strings that parsed are
  returned in the order of the guesses. The calls of \<open>console\<close> have no part in the result.
\<close>

definition preParse :: "jsstring \<Rightarrow> BruteForce option \<Rightarrow> Heuristic option \<Rightarrow> bool \<Rightarrow> jsstring list" where
  "preParse misformattedJSON bruteForce heuristic TRY_HARD =
     map string (filter (\<lambda>guess. JSON_parses (string guess))
       (finalGuesses misformattedJSON bruteForce heuristic TRY_HARD))"

section \<open>Hooks that throw\<close>

text \<open>
  The source calls both hooks outside any \<open>try\<close>; only \<open>JSON.parse\<close> is guarded. A
  hook that throws therefore ends \<open>preParse\<close> with what it threw. Here a hook answers
  \<open>Inl e\<close> when it throws \<open>e\<close> and \<open>Inr\<close> of its result when it returns, and so does
  every function that calls one. The branches that call no hook are those of the scan
  above.
\<close>

type_synonym 'e RaisingBruteForce = "StringPosition \<Rightarrow> 'e + bool"

type_synonym 'e RaisingHeuristic = "StringPosition \<Rightarrow> 'e + Guess \<times> bool"

text \<open>A hook that returns, seen as one that may throw.\<close>

definition returning :: "('a \<Rightarrow> 'b) \<Rightarrow> 'a \<Rightarrow> 'e + 'b" where
  "returning hook pos = Inr (hook pos)"

text \<open>
  The branch of an apostrophe: \<open>bruteForce\<close> is called first, and \<open>heuristic\<close> only when
  it is absent or has returned a falsy value; what either throws leaves the function.
\<close>

definition singleQuote_raising :: "'e RaisingBruteForce option \<Rightarrow> 'e RaisingHeuristic option \<Rightarrow> bool \<Rightarrow> jsstring \<Rightarrow> nat \<Rightarrow> nat \<Rightarrow> Guess \<Rightarrow> 'e + Guess \<times> Guess list" where
  "singleQuote_raising bruteForce heuristic TRY_HARD inp si ci g =
     (case (case bruteForce of None \<Rightarrow> Inr False | Some bf \<Rightarrow> bf (positionOf inp si ci g)) of
        Inl e \<Rightarrow> Inl e
      | Inr answer \<Rightarrow>
          if answer then
            Inr (g\<lparr>string := string g @ DQ\<rparr>, [g\<lparr>string := string g @ SQ\<rparr>])
          else
            case heuristic of
              None \<Rightarrow> Inr (defaultHeuristics TRY_HARD inp si g g)
            | Some h \<Rightarrow>
                (case h (positionOf inp si ci g) of
                   Inl e \<Rightarrow> Inl e
                 | Inr (cur, truthy) \<Rightarrow>
                     Inr (if truthy then (cur, [])
                          else defaultHeuristics TRY_HARD inp si g cur)))"

definition guessStep_raising :: "'e RaisingBruteForce option \<Rightarrow> 'e RaisingHeuristic option \<Rightarrow> bool \<Rightarrow> jsstring \<Rightarrow> nat \<Rightarrow> nat \<Rightarrow> jsstring \<Rightarrow> Guess \<Rightarrow> 'e + Guess \<times> Guess list" where
  "guessStep_raising bruteForce heuristic TRY_HARD inp si ci character g =
     (if aufoFilled g \<noteq> 0 then Inr (g\<lparr>aufoFilled := aufoFilled g - 1\<rparr>, [])
      else if character \<noteq> SQ then Inr (otherCharacter character g, [])
      else singleQuote_raising bruteForce heuristic TRY_HARD inp si ci g)"

text \<open>The two loops, left at the first error.\<close>

fun guessLoop_raising :: "(Guess \<Rightarrow> 'e + Guess \<times> Guess list) \<Rightarrow> nat \<Rightarrow> Guess list \<Rightarrow> 'e + Guess list" where
  "guessLoop_raising step 0 guesses = Inr guesses"
| "guessLoop_raising step (Suc n) guesses =
     (case step (guesses ! n) of
        Inl e \<Rightarrow> Inl e
      | Inr (g', pushed) \<Rightarrow> guessLoop_raising step n (guesses[n := g'] @ pushed))"

fun charLoop_raising :: "'e RaisingBruteForce option \<Rightarrow> 'e RaisingHeuristic option \<Rightarrow> bool \<Rightarrow> jsstring \<Rightarrow> jsstring list \<Rightarrow> nat \<Rightarrow> nat \<Rightarrow> Guess list \<Rightarrow> 'e + Guess list" where
  "charLoop_raising bruteForce heuristic TRY_HARD inp [] si ci guesses = Inr guesses"
| "charLoop_raising bruteForce heuristic TRY_HARD inp (character # rest) si ci guesses =
     (case guessLoop_raising (guessStep_raising bruteForce heuristic TRY_HARD inp si ci character)
             (length guesses) guesses of
        Inl e \<Rightarrow> Inl e
      | Inr guesses' \<Rightarrow>
          charLoop_raising bruteForce heuristic TRY_HARD inp rest (si + length character)
            (Suc ci) guesses')"

definition finalGuesses_raising :: "jsstring \<Rightarrow> 'e RaisingBruteForce option \<Rightarrow> 'e RaisingHeuristic option \<Rightarrow> bool \<Rightarrow> 'e + Guess list" where
  "finalGuesses_raising misformattedJSON bruteForce heuristic TRY_HARD =
     charLoop_raising bruteForce heuristic TRY_HARD misformattedJSON
       (codePoints misformattedJSON) 0 0 [initialGuess]"

definition preParse_raising :: "jsstring \<Rightarrow> 'e RaisingBruteForce option \<Rightarrow> 'e RaisingHeuristic option \<Rightarrow> bool \<Rightarrow> 'e + jsstring list" where
  "preParse_raising misformattedJSON bruteForce heuristic TRY_HARD =
     (case finalGuesses_raising misformattedJSON bruteForce heuristic TRY_HARD of
        Inl e \<Rightarrow> Inl e
      | Inr guesses \<Rightarrow>
          Inr (map string (filter (\<lambda>guess. JSON_parses (string guess)) guesses)))"

text \<open>Two hooks that throw at every call, as examples.\<close>

datatype thrown = HookFailure

definition throwingBruteForce :: "thrown RaisingBruteForce" where
  "throwingBruteForce pos = Inl HookFailure"

definition throwingHeuristic :: "thrown RaisingHeuristic" where
  "throwingHeuristic pos = Inl HookFailure"

section \<open>The loops as maps\<close>

lemma codePoints_concat: "concat (codePoints s) = s"
  by (induction s rule: codePoints.induct) auto

lemma codePoints_units: "c \<in> set (codePoints s) \<Longrightarrow> set c \<subseteq> set s"
proof -
  assume "c \<in> set (codePoints s)"
  then have "set c \<subseteq> set (concat (codePoints s))" by auto
  then show ?thesis by (simp add: codePoints_concat)
qed

text \<open>
  The loop over the guesses visits the first \<open>n\<close> guesses from the last to the first,
  replaces each by its successor and appends what each visit pushed.
\<close>

lemma guessLoop_take:
  "n \<le> length gs \<Longrightarrow>
   guessLoop step n gs =
     map (\<lambda>g. fst (step g)) (take n gs) @ drop n gs @
     concat (map (\<lambda>g. snd (step g)) (rev (take n gs)))"
proof (induction n arbitrary: gs)
  case 0
  show ?case by simp
next
  case (Suc n)
  obtain g' pushed where st: "step (gs ! n) = (g', pushed)"
    by (cases "step (gs ! n)")
  let ?gs' = "gs[n := g'] @ pushed"
  have n: "n < length gs" using Suc.prems by simp
  have tk: "take n ?gs' = take n gs" using n by simp
  have dr: "drop n (gs[n := g']) = g' # drop (Suc n) gs"
    using n by (simp add: upd_conv_take_nth_drop)
  have "guessLoop step (Suc n) gs = guessLoop step n ?gs'" by (simp add: st)
  also have "\<dots> = map (\<lambda>g. fst (step g)) (take n ?gs') @ drop n ?gs' @
       concat (map (\<lambda>g. snd (step g)) (rev (take n ?gs')))"
    by (rule Suc.IH) (use n in simp)
  finally show ?case using n st by (simp add: tk dr take_Suc_conv_app_nth)
qed

lemma guessLoop_all:
  "guessLoop step (length gs) gs =
     map (\<lambda>g. fst (step g)) gs @ concat (map (\<lambda>g. snd (step g)) (rev gs))"
  by (simp add: guessLoop_take)

lemma guessLoop_invariant:
  assumes "\<forall>g \<in> set gs. P g"
    and "\<And>g. P g \<Longrightarrow> Q (fst (step g)) \<and> (\<forall>p \<in> set (snd (step g)). Q p)"
  shows "\<forall>g \<in> set (guessLoop step (length gs) gs). Q g"
  using assms by (auto simp: guessLoop_all)

lemma charLoop_invariant:
  assumes "\<forall>g \<in> set gs. P g"
    and "\<And>si ci c g. P g \<Longrightarrow>
           P (fst (guessStep bf h th inp si ci c g)) \<and>
           (\<forall>p \<in> set (snd (guessStep bf h th inp si ci c g)). P p)"
  shows "\<forall>g \<in> set (charLoop bf h th inp cs si ci gs). P g"
  using assms(1)
proof (induction cs arbitrary: si ci gs)
  case Nil
  then show ?case by simp
next
  case (Cons c cs)
  have "\<forall>g \<in> set (guessLoop (guessStep bf h th inp si ci c) (length gs) gs). P g"
    by (rule guessLoop_invariant [OF Cons.prems]) (rule assms(2))
  from Cons.IH [OF this, of "si + length c" "Suc ci"] show ?case by simp
qed

lemma finalGuesses_guessesAfter:
  "finalGuesses inp bf h th = guessesAfter (length (codePoints inp)) inp bf h th"
  by (simp add: finalGuesses_def guessesAfter_def)

section \<open>What the entry point returns\<close>

text \<open>With hooks that return, the scan with errors is the scan above.\<close>

lemma singleQuote_returning:
  "singleQuote_raising (map_option returning bf) (map_option returning h) th inp si ci g =
     Inr (singleQuote bf h th inp si ci g)"
  by (cases bf; cases h)
     (auto simp: singleQuote_raising_def singleQuote_def bruteForceSays_def returning_def
        split: prod.splits)

lemma guessStep_returning:
  "guessStep_raising (map_option returning bf) (map_option returning h) th inp si ci c g =
     Inr (guessStep bf h th inp si ci c g)"
  by (simp add: guessStep_raising_def guessStep_def singleQuote_returning)

lemma guessLoop_returning:
  assumes "\<And>g. stepR g = Inr (step g)"
  shows "guessLoop_raising stepR n gs = Inr (guessLoop step n gs)"
  by (induction n arbitrary: gs) (simp_all add: assms split: prod.splits)

lemma charLoop_returning:
  "charLoop_raising (map_option returning bf) (map_option returning h) th inp cs si ci gs =
     Inr (charLoop bf h th inp cs si ci gs)"
proof (induction cs arbitrary: si ci gs)
  case Nil
  show ?case by simp
next
  case (Cons c cs)
  show ?case by (simp add: guessLoop_returning [OF guessStep_returning] Cons.IH)
qed

lemma preParse_returning:
  "preParse_raising inp (map_option returning bf) (map_option returning h) th =
     Inr (preParse inp bf h th)"
  by (simp add: preParse_raising_def finalGuesses_raising_def preParse_def finalGuesses_def
        charLoop_returning)

text \<open>An error of the scan is what one of the two hooks threw.\<close>

lemma singleQuote_raises:
  assumes "singleQuote_raising bf h th inp si ci g = Inl e"
  shows "(\<exists>f pos. bf = Some f \<and> f pos = Inl e) \<or> (\<exists>f pos. h = Some f \<and> f pos = Inl e)"
  using assms
  by (auto simp: singleQuote_raising_def split: option.splits sum.splits if_splits prod.splits)

lemma guessStep_raises:
  assumes "guessStep_raising bf h th inp si ci c g = Inl e"
  shows "(\<exists>f pos. bf = Some f \<and> f pos = Inl e) \<or> (\<exists>f pos. h = Some f \<and> f pos = Inl e)"
  using assms singleQuote_raises [of bf h th inp si ci g e]
  by (simp add: guessStep_raising_def split: if_splits)

lemma guessLoop_raises:
  "guessLoop_raising step n gs = Inl e \<Longrightarrow> \<exists>g. step g = Inl e"
  by (induction n arbitrary: gs) (auto split: sum.splits prod.splits)

lemma charLoop_raises:
  "charLoop_raising bf h th inp cs si ci gs = Inl e \<Longrightarrow>
   (\<exists>f pos. bf = Some f \<and> f pos = Inl e) \<or> (\<exists>f pos. h = Some f \<and> f pos = Inl e)"
proof (induction cs arbitrary: si ci gs)
  case Nil
  then show ?case by simp
next
  case (Cons c cs)
  show ?case
  proof (cases "guessLoop_raising (guessStep_raising bf h th inp si ci c) (length gs) gs")
    case (Inl e')
    with Cons.prems have "e' = e" by simp
    with Inl guessLoop_raises [of "guessStep_raising bf h th inp si ci c" "length gs" gs e]
    obtain g where "guessStep_raising bf h th inp si ci c g = Inl e" by auto
    then show ?thesis by (rule guessStep_raises)
  next
    case (Inr gs')
    with Cons.prems have "charLoop_raising bf h th inp cs (si + length c) (Suc ci) gs' = Inl e"
      by simp
    then show ?thesis by (rule Cons.IH)
  qed
qed

text \<open>
  C1, as the source has it. Whatever the input and the hooks, \<open>preParse\<close> ends in one
  of two ways. It ends with an error only if one of the hooks threw it. Otherwise it
  returns a list, every string of the list parses as JSON, and the list is empty when the
  text of no guess parses. With hooks that return, and so without hooks, it returns.
\<close>

theorem preParse_raising_outcomes:
  "(preParse_raising inp bf h th = Inl e \<longrightarrow>
      (\<exists>f pos. bf = Some f \<and> f pos = Inl e) \<or> (\<exists>f pos. h = Some f \<and> f pos = Inl e)) \<and>
   (preParse_raising inp bf h th = Inr result \<longrightarrow> (\<forall>s \<in> set result. JSON_parses s)) \<and>
   (finalGuesses_raising inp bf h th = Inr guesses \<and>
    (\<forall>g \<in> set guesses. \<not> JSON_parses (string g)) \<longrightarrow>
      preParse_raising inp bf h th = Inr []) \<and>
   preParse_raising inp (map_option returning bf') (map_option returning h') th =
     (Inr (preParse inp bf' h' th) :: 'e + jsstring list)"
proof -
  have a: "(\<exists>f pos. bf = Some f \<and> f pos = Inl e) \<or> (\<exists>f pos. h = Some f \<and> f pos = Inl e)"
    if "preParse_raising inp bf h th = Inl e"
  proof -
    from that have "finalGuesses_raising inp bf h th = Inl e"
      by (simp add: preParse_raising_def split: sum.splits)
    then show ?thesis unfolding finalGuesses_raising_def by (rule charLoop_raises)
  qed
  have b: "\<forall>s \<in> set result. JSON_parses s" if "preParse_raising inp bf h th = Inr result"
    using that by (auto simp: preParse_raising_def split: sum.splits)
  have c: "preParse_raising inp bf h th = Inr []"
    if "finalGuesses_raising inp bf h th = Inr guesses"
      and "\<forall>g \<in> set guesses. \<not> JSON_parses (string g)"
    using that by (simp add: preParse_raising_def filter_empty_conv)
  from a b c show ?thesis by (simp add: preParse_returning)
qed

theorem preParse_raising_outcomes_witness:
  \<open>preParse_raising SQ (Some throwingBruteForce) None False = Inl HookFailure \<and>
   ((\<exists>f pos. Some throwingBruteForce = Some f \<and> f pos = Inl HookFailure) \<or>
    (\<exists>f pos. (None :: thrown RaisingHeuristic option) = Some f \<and> f pos = Inl HookFailure)) \<and>
   preParse_raising (js ''[\'a\']'') None (None :: thrown RaisingHeuristic option) False =
     Inr [js ''["a"]''] \<and>
   JSON_parses (js ''["a"]'') \<and>
   finalGuesses_raising (js ''[\'a\'b\'c\']'') None
       (None :: thrown RaisingHeuristic option) False =
     Inr (finalGuesses (js ''[\'a\'b\'c\']'') None None False) \<and>
   map JSON_parses (map string (finalGuesses (js ''[\'a\'b\'c\']'') None None False)) =
     [False, False] \<and>
   preParse_raising (js ''[\'a\'b\'c\']'') None (None :: thrown RaisingHeuristic option) False =
     Inr [] \<and>
   preParse_raising (js ''[\'a\']'') (map_option returning (Some alwaysBruteForce))
       (map_option returning (Some decliningHeuristic)) False =
     (Inr (preParse (js ''[\'a\']'') (Some alwaysBruteForce) (Some decliningHeuristic) False)
        :: thrown + jsstring list)\<close>
proof -
  let ?none = \<open>None :: thrown RaisingHeuristic option\<close>
  have a: \<open>preParse_raising SQ (Some throwingBruteForce) None False = Inl HookFailure\<close>
    by code_simp
  have b: \<open>preParse_raising (js ''[\'a\']'') None ?none False = Inr [js ''["a"]'']\<close>
    by code_simp
  have c: \<open>finalGuesses_raising (js ''[\'a\'b\'c\']'') None ?none False =
     Inr (finalGuesses (js ''[\'a\'b\'c\']'') None None False)\<close>
    by code_simp
  have n: \<open>map JSON_parses (map string
      (finalGuesses (js ''[\'a\'b\'c\']'') None None False)) = [False, False]\<close>
    by code_simp
  have \<open>set (map JSON_parses (map string
      (finalGuesses (js ''[\'a\'b\'c\']'') None None False))) = {False}\<close>
    by (simp only: n) simp
  then have none: \<open>\<forall>g \<in> set (finalGuesses (js ''[\'a\'b\'c\']'') None None False).
      \<not> JSON_parses (string g)\<close>
    by auto
  from a preParse_raising_outcomes [where inp = SQ and bf = \<open>Some throwingBruteForce\<close>
      and h = None and th = False and e = HookFailure]
  have a': \<open>(\<exists>f pos. Some throwingBruteForce = Some f \<and> f pos = Inl HookFailure) \<or>
    (\<exists>f pos. ?none = Some f \<and> f pos = Inl HookFailure)\<close>
    by blast
  from b preParse_raising_outcomes [where inp = \<open>js ''[\'a\']''\<close> and bf = None
      and h = ?none and th = False and result = \<open>[js ''["a"]'']\<close>]
  have b': \<open>JSON_parses (js ''["a"]'')\<close> by fastforce
  from c none preParse_raising_outcomes [where inp = \<open>js ''[\'a\'b\'c\']''\<close> and bf = None
      and h = ?none and th = False
      and guesses = \<open>finalGuesses (js ''[\'a\'b\'c\']'') None None False\<close>]
  have c': \<open>preParse_raising (js ''[\'a\'b\'c\']'') None ?none False = Inr []\<close>
    by blast
  from preParse_raising_outcomes [where inp = \<open>js ''[\'a\']''\<close> and th = False
      and bf' = \<open>Some alwaysBruteForce\<close> and h' = \<open>Some decliningHeuristic\<close>
      and bf = None and h = ?none]
  have d: \<open>preParse_raising (js ''[\'a\']'') (map_option returning (Some alwaysBruteForce))
       (map_option returning (Some decliningHeuristic)) False =
     (Inr (preParse (js ''[\'a\']'') (Some alwaysBruteForce) (Some decliningHeuristic) False)
        :: thrown + jsstring list)\<close>
    by blast
  from a a' b b' c n c' d show ?thesis by blast
qed

text \<open>
  C1 as the specification words it fails for a hook that throws: with such a predicate
  the call on the text of one apostrophe ends with the error and returns nothing.
\<close>

theorem preParse_raising_counterexample:
  "preParse_raising SQ (Some throwingBruteForce) None False = Inl HookFailure"
  by code_simp

text \<open>On the empty text no hook is called, so no hook can throw.\<close>

lemma preParse_raising_empty_input: "preParse_raising [] bf h th = Inr []"
  by (simp add: preParse_raising_def finalGuesses_raising_def initialGuess_def JSON_parses_def)

text \<open>
  C2. The first example of the source, \<open>['Bob O'Rielly']\<close>, without hooks and without
  \<open>TRY_HARD\<close>: the result holds \<open>["Bob O'Rielly"]\<close>.
\<close>

theorem preParse_Bob_ORielly:
  \<open>js ''["Bob O\'Rielly"]'' \<in> set (preParse (js ''[\'Bob O\'Rielly\']'') None None False)\<close>
  by code_simp

text \<open>
  C10. On the empty text the scan leaves the one initial guess, its text is empty, the
  empty text does not parse, and \<open>preParse\<close> returns the empty list, whatever the hooks.
\<close>

theorem preParse_empty_input:
  "finalGuesses [] bf h th = [initialGuess] \<and> string initialGuess = [] \<and>
   \<not> JSON_parses [] \<and> preParse [] bf h th = []"
  by (simp add: preParse_def finalGuesses_def initialGuess_def JSON_parses_def)

section \<open>Texts that are JSON already\<close>

lemma otherCharacter_string: "string (otherCharacter c g) = string g @ c"
  by (simp add: otherCharacter_def Let_def)

lemma otherCharacter_aufoFilled: "aufoFilled (otherCharacter c g) = aufoFilled g"
  by (simp add: otherCharacter_def Let_def)

text \<open>
  No hook is called and no guess is pushed while no apostrophe comes: the one guess
  collects the characters.
\<close>

lemma charLoop_without_quote:
  "\<forall>c \<in> set cs. c \<noteq> SQ \<Longrightarrow> aufoFilled g = 0 \<Longrightarrow>
   \<exists>g'. charLoop bf h th inp cs si ci [g] = [g'] \<and> string g' = string g @ concat cs \<and>
        aufoFilled g' = 0"
proof (induction cs arbitrary: g si ci)
  case Nil
  then show ?case by simp
next
  case (Cons c cs)
  let ?g1 = "otherCharacter c g"
  have step: "guessLoop (guessStep bf h th inp si ci c) (length [g]) [g] = [?g1]"
    using Cons.prems by (simp add: guessStep_def)
  have "aufoFilled ?g1 = 0" using Cons.prems by (simp add: otherCharacter_aufoFilled)
  with Cons.IH [of ?g1 "si + length c" "Suc ci"] Cons.prems
  obtain g' where "charLoop bf h th inp cs (si + length c) (Suc ci) [?g1] = [g']"
    and "string g' = string ?g1 @ concat cs" and "aufoFilled g' = 0" by auto
  then show ?case using step by (simp add: otherCharacter_string)
qed

lemma finalGuesses_without_quote:
  assumes "0x27 \<notin> set inp"
  shows "map string (finalGuesses inp bf h th) = [inp]"
proof -
  have "\<forall>c \<in> set (codePoints inp). c \<noteq> SQ"
    using assms codePoints_units [of SQ inp] by auto
  from charLoop_without_quote [OF this, of initialGuess bf h th inp 0 0]
  show ?thesis by (auto simp: finalGuesses_def initialGuess_def codePoints_concat)
qed

text \<open>
  C3, as the source has it. The scan does not look at quotation marks: it takes the first
  apostrophe of a text for the start of a string, also inside a string in quotation
  marks. A text that is JSON and has no apostrophe comes back alone and unchanged,
  without hooks and with \<open>TRY_HARD\<close> either way.
\<close>

theorem valid_without_apostrophe_unchanged:
  "JSON_parses inp \<Longrightarrow> 0x27 \<notin> set inp \<Longrightarrow> preParse inp None None th = [inp]"
proof -
  assume v: "JSON_parses inp" and q: "0x27 \<notin> set inp"
  from finalGuesses_without_quote [OF q, of None None th]
  obtain g where g: "finalGuesses inp None None th = [g]" and s: "string g = inp"
    by (auto simp: map_eq_Cons_conv)
  show ?thesis using v by (simp add: preParse_def g s)
qed

theorem valid_without_apostrophe_unchanged_witness:
  \<open>JSON_parses (js ''{"name": ["Bob", 1.5e3, null]}'') \<and>
   0x27 \<notin> set (js ''{"name": ["Bob", 1.5e3, null]}'') \<and>
   preParse (js ''{"name": ["Bob", 1.5e3, null]}'') None None False =
     [js ''{"name": ["Bob", 1.5e3, null]}'']\<close>
proof -
  have v: \<open>JSON_parses (js ''{"name": ["Bob", 1.5e3, null]}'')\<close> by code_simp
  have q: \<open>0x27 \<notin> set (js ''{"name": ["Bob", 1.5e3, null]}'')\<close> by code_simp
  from valid_without_apostrophe_unchanged [OF v q, of False] v q show ?thesis by simp
qed

text \<open>
  C3 as the specification words it fails on \<open>["it's"]\<close>: the text is JSON, its only
  string is in quotation marks, and \<open>preParse\<close> does not return it.
\<close>

theorem valid_with_apostrophe_counterexample:
  \<open>JSON_parses (js ''["it\'s"]'') \<and>
   preParse (js ''["it\'s"]'') None None False \<noteq> [js ''["it\'s"]'']\<close>
  by code_simp

section \<open>The hooks at an apostrophe\<close>

text \<open>
  C4, as the source has it. At an apostrophe that no auto-fill covers and for which
  \<open>bruteForce\<close> is absent or answers with a falsy value, the value the heuristic returns
  decides: on a truthy value the guess stays as the callback left it and nothing is
  pushed; on a falsy value the default heuristics run, on the guess as the callback left
  it and with the flags read before the call.
\<close>

theorem heuristic_result_decides:
  assumes "aufoFilled g = 0"
    and "\<not> bruteForceSays bf (positionOf inp si ci g)"
    and "h (positionOf inp si ci g) = (cur, truthy)"
  shows "guessStep bf (Some h) th inp si ci SQ g =
           (if truthy then (cur, []) else defaultHeuristics th inp si g cur)"
  using assms by (simp add: guessStep_def singleQuote_def)

theorem heuristic_result_decides_witness:
  "aufoFilled initialGuess = 0 \<and>
   \<not> bruteForceSays None (positionOf SQ 0 0 initialGuess) \<and>
   escapingHeuristic (positionOf SQ 0 0 initialGuess) =
     (initialGuess\<lparr>string := BACKSLASH @ DQ\<rparr>, True) \<and>
   guessStep None (Some escapingHeuristic) False SQ 0 0 SQ initialGuess =
     (initialGuess\<lparr>string := BACKSLASH @ DQ\<rparr>, [])"
proof -
  have a: "aufoFilled initialGuess = 0" by (simp add: initialGuess_def)
  have b: "\<not> bruteForceSays None (positionOf SQ 0 0 initialGuess)"
    by (simp add: bruteForceSays_def)
  have c: "escapingHeuristic (positionOf SQ 0 0 initialGuess) =
     (initialGuess\<lparr>string := BACKSLASH @ DQ\<rparr>, True)"
    by (simp add: escapingHeuristic_def positionOf_def initialGuess_def)
  from heuristic_result_decides [where g = initialGuess and bf = None and inp = SQ
      and si = 0 and ci = 0 and h = escapingHeuristic and th = False, OF a b c] a b c
  show ?thesis by simp
qed

text \<open>
  C4 as the specification words it fails for a heuristic that returns a falsy value: on
  the text of one apostrophe the callback leaves the guess as it was, and the step goes
  on to write a quotation mark into it.
\<close>

theorem heuristic_falsy_counterexample:
  "fst (guessStep None (Some decliningHeuristic) False SQ 0 0 SQ initialGuess) \<noteq>
   fst (decliningHeuristic (positionOf SQ 0 0 initialGuess))"
  by (simp add: guessStep_def singleQuote_def bruteForceSays_def decliningHeuristic_def
        positionOf_def defaultHeuristics_def initialGuess_def)

text \<open>
  C5, as the source has it. When \<open>bruteForce\<close> answers true at an apostrophe that no
  auto-fill covers, a guess is pushed that keeps the apostrophe and is otherwise the
  current guess, and the current guess gets a quotation mark; every other property of the
  current guess, \<open>isString\<close> among them, stays as it was.
\<close>

theorem bruteForce_fork:
  assumes "aufoFilled g = 0" and "bf (positionOf inp si ci g)"
  shows "guessStep (Some bf) h th inp si ci SQ g =
           (g\<lparr>string := string g @ DQ\<rparr>, [g\<lparr>string := string g @ SQ\<rparr>])"
  using assms by (simp add: guessStep_def singleQuote_def bruteForceSays_def)

theorem bruteForce_fork_witness:
  "aufoFilled initialGuess = 0 \<and> alwaysBruteForce (positionOf SQ 0 0 initialGuess) \<and>
   guessStep (Some alwaysBruteForce) None False SQ 0 0 SQ initialGuess =
     (initialGuess\<lparr>string := DQ\<rparr>, [initialGuess\<lparr>string := SQ\<rparr>])"
proof -
  have a: "aufoFilled initialGuess = 0" by (simp add: initialGuess_def)
  have b: "alwaysBruteForce (positionOf SQ 0 0 initialGuess)"
    by (simp add: alwaysBruteForce_def)
  from bruteForce_fork [where g = initialGuess and bf = alwaysBruteForce and inp = SQ
      and si = 0 and ci = 0 and h = None and th = False, OF a b] a b
  show ?thesis by (simp add: initialGuess_def)
qed

text \<open>
  C5 as the specification words it fails on the text of one apostrophe: the current guess
  is outside a string before the step and still outside after it.
\<close>

theorem bruteForce_flip_counterexample:
  "isString (fst (guessStep (Some alwaysBruteForce) None False SQ 0 0 SQ initialGuess)) \<noteq>
   (\<not> isString initialGuess)"
  by (simp add: guessStep_def singleQuote_def bruteForceSays_def alwaysBruteForce_def
        initialGuess_def)

section \<open>Inside a string\<close>

text \<open>
  C6, as the source has it. For a guess inside a string that no auto-fill covers: a
  backslash is appended and toggles \<open>isEscaped\<close>; any other character but the apostrophe
  is appended and leaves \<open>isEscaped\<close> as it is, set or not; an apostrophe with
  \<open>isEscaped\<close> set, when \<open>bruteForce\<close> is absent or declines and there is no heuristic,
  is appended and clears \<open>isEscaped\<close>. Nothing else of the guess changes, and nothing is
  pushed.
\<close>

theorem inside_string_characters:
  assumes "isString g" and "aufoFilled g = 0"
  shows "guessStep bf h th inp si ci BACKSLASH g =
           (g\<lparr>string := string g @ BACKSLASH, isEscaped := \<not> isEscaped g\<rparr>, []) \<and>
         (c \<noteq> SQ \<and> c \<noteq> BACKSLASH \<longrightarrow>
            guessStep bf h th inp si ci c g = (g\<lparr>string := string g @ c\<rparr>, [])) \<and>
         (isEscaped g \<and> \<not> bruteForceSays bf (positionOf inp si ci g) \<longrightarrow>
            guessStep bf None th inp si ci SQ g =
              (g\<lparr>string := string g @ SQ, isEscaped := False\<rparr>, []))"
  using assms
  by (simp add: guessStep_def otherCharacter_def singleQuote_def defaultHeuristics_def)

theorem inside_string_characters_witness:
  "isString escapedGuess \<and> aufoFilled escapedGuess = 0 \<and> js ''n'' \<noteq> SQ \<and>
   js ''n'' \<noteq> BACKSLASH \<and> isEscaped escapedGuess \<and>
   \<not> bruteForceSays None (positionOf (SQ @ BACKSLASH @ SQ) 2 2 escapedGuess) \<and>
   guessStep None None False (SQ @ BACKSLASH @ SQ) 2 2 BACKSLASH escapedGuess =
     (escapedGuess\<lparr>string := DQ @ BACKSLASH @ BACKSLASH, isEscaped := False\<rparr>, []) \<and>
   guessStep None None False (SQ @ BACKSLASH @ SQ) 2 2 (js ''n'') escapedGuess =
     (escapedGuess\<lparr>string := DQ @ BACKSLASH @ js ''n''\<rparr>, []) \<and>
   guessStep None None False (SQ @ BACKSLASH @ SQ) 2 2 SQ escapedGuess =
     (escapedGuess\<lparr>string := DQ @ BACKSLASH @ SQ, isEscaped := False\<rparr>, [])"
proof -
  have a: "isString escapedGuess" and b: "aufoFilled escapedGuess = 0"
    and e: "isEscaped escapedGuess"
    by (simp_all add: escapedGuess_def initialGuess_def)
  have c: "js ''n'' \<noteq> SQ" and d: "js ''n'' \<noteq> BACKSLASH" by (simp_all add: js_def)
  have f: "\<not> bruteForceSays None (positionOf (SQ @ BACKSLASH @ SQ) 2 2 escapedGuess)"
    by (simp add: bruteForceSays_def)
  from inside_string_characters [OF a b, of None None False "SQ @ BACKSLASH @ SQ" 2 2 "js ''n''"]
    a b c d e f
  show ?thesis by (simp add: escapedGuess_def)
qed

text \<open>
  C6 as the specification words it fails on an apostrophe, a backslash and the letter n:
  after the backslash the guess is inside a string with the escape pending, and after the
  letter the escape is pending still.
\<close>

theorem escape_not_cleared_counterexample:
  "map isString (finalGuesses (SQ @ BACKSLASH) None None False) = [True] \<and>
   map isEscaped (finalGuesses (SQ @ BACKSLASH) None None False) = [True] \<and>
   map isEscaped (finalGuesses (SQ @ BACKSLASH @ js ''n'') None None False) = [True]"
  by code_simp

section \<open>The type after a closing brace or bracket\<close>

text \<open>
  C7. The source computes the type after \<open>}\<close> and \<open>]\<close> from \<open>isArray\<close> and \<open>isObject\<close>
  as they were destructured before the decrement. On \<open>[]\<close> the bracket that closes the
  outermost array finds \<open>isArray\<close> at one, so the type stays \<open>"array"\<close> while both
  counters end at zero; on \<open>{}\<close> it stays \<open>"object-value"\<close>.
\<close>

theorem type_after_outermost_close:
  "map isJSONType (finalGuesses (js ''[]'') None None False) = [Some TArray] \<and>
   map isArray (finalGuesses (js ''[]'') None None False) = [0] \<and>
   map isObject (finalGuesses (js ''[]'') None None False) = [0] \<and>
   map isJSONType (finalGuesses (js ''{}'') None None False) = [Some TObjectValue] \<and>
   map isArray (finalGuesses (js ''{}'') None None False) = [0] \<and>
   map isObject (finalGuesses (js ''{}'') None None False) = [0]"
  by code_simp

section \<open>The auto-fill counter\<close>

text \<open>
  Without a heuristic, which could write any number, the counter never goes below zero,
  and a guess with a counter that is not zero skips the character and counts one down.
\<close>

lemma defaultHeuristics_aufoFilled:
  assumes "0 \<le> aufoFilled cur"
  shows "0 \<le> aufoFilled (fst (defaultHeuristics th inp si g cur)) \<and>
         (\<forall>p \<in> set (snd (defaultHeuristics th inp si g cur)). 0 \<le> aufoFilled p)"
  using assms by (simp add: defaultHeuristics_def Let_def)

lemma singleQuote_aufoFilled:
  assumes "0 \<le> aufoFilled g"
  shows "0 \<le> aufoFilled (fst (singleQuote bf None th inp si ci g)) \<and>
         (\<forall>p \<in> set (snd (singleQuote bf None th inp si ci g)). 0 \<le> aufoFilled p)"
  using assms defaultHeuristics_aufoFilled [of g th inp si g]
  by (simp add: singleQuote_def)

lemma guessStep_aufoFilled:
  assumes "0 \<le> aufoFilled g"
  shows "0 \<le> aufoFilled (fst (guessStep bf None th inp si ci c g)) \<and>
         (\<forall>p \<in> set (snd (guessStep bf None th inp si ci c g)). 0 \<le> aufoFilled p)"
  using assms singleQuote_aufoFilled [of g bf th inp si ci]
  by (simp add: guessStep_def otherCharacter_aufoFilled)

lemma aufoFilled_nonnegative:
  "g \<in> set (guessesAfter n inp bf None th) \<Longrightarrow> 0 \<le> aufoFilled g"
proof -
  have "\<forall>g \<in> set (charLoop bf None th inp (take n (codePoints inp)) 0 0 [initialGuess]).
      0 \<le> aufoFilled g"
    by (rule charLoop_invariant) (simp_all add: initialGuess_def guessStep_aufoFilled)
  then show "g \<in> set (guessesAfter n inp bf None th) \<Longrightarrow> 0 \<le> aufoFilled g"
    by (simp add: guessesAfter_def)
qed

lemma guessStep_skips:
  "aufoFilled g \<noteq> 0 \<Longrightarrow>
   guessStep bf h th inp si ci c g = (g\<lparr>aufoFilled := aufoFilled g - 1\<rparr>, [])"
  by (simp add: guessStep_def)

text \<open>
  C8. The expression that finds the next closing apostrophe is not anchored, so its match
  may begin after the apostrophe that follows the current one, and the group it captures
  is then not the text that comes next. On \<open>['a'b'c']\<close>, at the second apostrophe, the
  group is \<open>c\<close>: the first guess gets \<open>'c"\<close> and a counter of two, the next two
  characters of the input are \<open>b'\<close>. It skips them and reads \<open>c\<close> again: its text ends
  as \<open>["a'c"c"]\<close>, and nothing is returned.
\<close>

theorem autofill_skips_what_it_did_not_fill:
  \<open>map string (guessesAfter 4 (js ''[\'a\'b\'c\']'') None None False) =
     [js ''["a\'c"'', js ''["a"''] \<and>
   map aufoFilled (guessesAfter 4 (js ''[\'a\'b\'c\']'') None None False) = [2, 0] \<and>
   concat (take 2 (drop 4 (codePoints (js ''[\'a\'b\'c\']'')))) = js ''b'' @ SQ \<and>
   map string (finalGuesses (js ''[\'a\'b\'c\']'') None None False) =
     [js ''["a\'c"c"]'', js ''["a"b"c"]''] \<and>
   preParse (js ''[\'a\'b\'c\']'') None None False = []\<close>
  by code_simp

text \<open>
  The counter is also set from the length of the group in code units and counted down
  once for each code point. On \<open>['a'XY',1]\<close>, where \<open>X\<close> is one character outside the
  Basic Multilingual Plane (U+1F600, two code units), the group has three units and two
  characters: the counter is four, the guess skips the comma as well, and the repair
  \<open>["a'XY",1]\<close> is lost.
\<close>

lemma autofill_counts_code_units:
  \<open>map aufoFilled
     (guessesAfter 4 (js ''[\'a'' @ SQ @ [0xD83D, 0xDE00] @ js ''Y\',1]'') None None False) =
     [4, 0] \<and>
   map string
     (finalGuesses (js ''[\'a'' @ SQ @ [0xD83D, 0xDE00] @ js ''Y\',1]'') None None False) =
     [js ''["a'' @ SQ @ [0xD83D, 0xDE00] @ js ''Y"1]'',
      js ''["a"'' @ [0xD83D, 0xDE00] @ js ''Y",1]''] \<and>
   JSON_parses (js ''["a'' @ SQ @ [0xD83D, 0xDE00] @ js ''Y",1]'') \<and>
   preParse (js ''[\'a'' @ SQ @ [0xD83D, 0xDE00] @ js ''Y\',1]'') None None False = []\<close>
  by code_simp

section \<open>The nesting counters\<close>

lemma otherCharacter_isObject:
  "isObject g - (if c = js ''}'' then 1 else 0) \<le> isObject (otherCharacter c g)"
  by (simp add: otherCharacter_def Let_def)

lemma defaultHeuristics_isObject:
  "isObject (fst (defaultHeuristics th inp si g cur)) = isObject cur \<and>
   (\<forall>p \<in> set (snd (defaultHeuristics th inp si g cur)). isObject p = isObject cur)"
  by (simp add: defaultHeuristics_def Let_def)

lemma singleQuote_isObject:
  "isObject (fst (singleQuote bf None th inp si ci g)) = isObject g \<and>
   (\<forall>p \<in> set (snd (singleQuote bf None th inp si ci g)). isObject p = isObject g)"
  using defaultHeuristics_isObject [of th inp si g g]
  by (simp add: singleQuote_def)

lemma guessStep_isObject:
  "isObject g - (if c = js ''}'' then 1 else 0) \<le>
     isObject (fst (guessStep bf None th inp si ci c g)) \<and>
   (\<forall>p \<in> set (snd (guessStep bf None th inp si ci c g)). isObject p = isObject g)"
  using singleQuote_isObject [of bf th inp si ci g] otherCharacter_isObject [of g c]
  by (auto simp: guessStep_def split: if_splits)

lemma charLoop_isObject:
  "\<forall>g \<in> set gs. L \<le> isObject g \<Longrightarrow>
   \<forall>g \<in> set (charLoop bf None th inp cs si ci gs).
     L - int (count_list cs (js ''}'')) \<le> isObject g"
proof (induction cs arbitrary: si ci gs L)
  case Nil
  then show ?case by simp
next
  case (Cons c cs)
  let ?d = "if c = js ''}'' then 1 else (0::int)"
  let ?step = "guessStep bf None th inp si ci c"
  have "\<forall>g \<in> set (guessLoop ?step (length gs) gs). L - ?d \<le> isObject g"
  proof (rule guessLoop_invariant [OF Cons.prems])
    fix g :: Guess
    assume "L \<le> isObject g"
    with guessStep_isObject [of g c bf th inp si ci]
    show "L - ?d \<le> isObject (fst (?step g)) \<and>
        (\<forall>p \<in> set (snd (?step g)). L - ?d \<le> isObject p)"
      by (simp split: if_splits)
  qed
  from Cons.IH [OF this, of "si + length c" "Suc ci"] show ?case
    by (auto split: if_splits)
qed

text \<open>
  C9, as the source has it. \<open>isObject\<close> goes down by one at every closing brace outside a
  string, with no floor. Without a heuristic, which could write any number, the counter of
  every guess after any number of characters of the scan is at least minus the number of
  closing braces among these characters, and it is not negative when the text has no
  closing brace.
\<close>

theorem isObject_lower_bound:
  assumes "g \<in> set (guessesAfter n inp bf None th)"
  shows "- int (count_list (take n (codePoints inp)) (js ''}'')) \<le> isObject g \<and>
         (0x7D \<notin> set inp \<longrightarrow> 0 \<le> isObject g)"
proof -
  have low: "- int (count_list (take n (codePoints inp)) (js ''}'')) \<le> isObject g"
    using assms
      charLoop_isObject [of "[initialGuess]" 0 bf th inp "take n (codePoints inp)" 0 0]
    by (simp add: guessesAfter_def initialGuess_def)
  have "count_list (take n (codePoints inp)) (js ''}'') = 0" if "0x7D \<notin> set inp"
  proof -
    have "js ''}'' \<notin> set (codePoints inp)"
      using that codePoints_units [of "js ''}''" inp] by (auto simp: js_def)
    then have "js ''}'' \<notin> set (take n (codePoints inp))"
      by (auto dest: in_set_takeD)
    then show ?thesis by (simp add: count_list_0_iff)
  qed
  with low show ?thesis by auto
qed

theorem isObject_lower_bound_witness:
  "hd (guessesAfter 3 (js ''{}}'') None None False) \<in>
     set (guessesAfter 3 (js ''{}}'') None None False) \<and>
   - int (count_list (take 3 (codePoints (js ''{}}''))) (js ''}'')) \<le>
     isObject (hd (guessesAfter 3 (js ''{}}'') None None False)) \<and>
   isObject (hd (guessesAfter 3 (js ''{}}'') None None False)) = - 1 \<and>
   hd (guessesAfter 2 (js ''{[{'') None None False) \<in>
     set (guessesAfter 2 (js ''{[{'') None None False) \<and>
   0x7D \<notin> set (js ''{[{'') \<and>
   0 \<le> isObject (hd (guessesAfter 2 (js ''{[{'') None None False))"
proof -
  have m: "hd (guessesAfter 3 (js ''{}}'') None None False) \<in>
     set (guessesAfter 3 (js ''{}}'') None None False)"
    by code_simp
  have v: "isObject (hd (guessesAfter 3 (js ''{}}'') None None False)) = - 1"
    by code_simp
  have m': "hd (guessesAfter 2 (js ''{[{'') None None False) \<in>
     set (guessesAfter 2 (js ''{[{'') None None False)"
    by code_simp
  have q: "0x7D \<notin> set (js ''{[{'')" by code_simp
  from isObject_lower_bound [OF m] isObject_lower_bound [OF m'] m v m' q
  show ?thesis by simp
qed

text \<open>
  C9 as the specification words it fails on the text of one closing brace: the counter of
  the one guess ends at minus one.
\<close>

theorem isObject_negative_counterexample:
  "map isObject (finalGuesses (js ''}'') None None False) = [- 1] \<and>
   \<not> 0 \<le> isObject (hd (finalGuesses (js ''}'') None None False))"
  by code_simp

end
